theory Spec2Isabelle
  imports Main
begin

section \<open>The terminal emulator of src/terminal\_emulator.cpp\<close>

text \<open>
  The model follows the first \<^verbatim>\<open>TerminalEmulator\<close> class of
  \<^verbatim>\<open>src/terminal_emulator.cpp\<close> (lines 15 to 348), the variant with
  \<^verbatim>\<open>sendSignalToChild\<close>, \<^verbatim>\<open>safeWrite\<close> and the history. The file goes on
  with an older, shorter class without history (from line 359), and
  \<^verbatim>\<open>src/unnamed/part_000\<close> holds a third one; the line numbers below are those of
  the first.
  The members of the class are the fields of a record; the function-local
  \<^verbatim>\<open>static std::string escape_sequence\<close> of \<^verbatim>\<open>processInput\<close> lives as long as
  the program and is a field as well. Every system call the emulator makes that a later
  statement talks about is appended to a log, in program order.

  The signal handler (\<^verbatim>\<open>handleSignal\<close>, lines 140 to 149) resizes the pseudo-terminal
  or passes the signal on to the child and writes no field of the class, so it has no
  part in the model. Diagnostics on \<^verbatim>\<open>std::cerr\<close> are not logged.
\<close>

subsection \<open>Bytes and constants\<close>

text \<open>
  A C \<^verbatim>\<open>char\<close> is a byte; \<^typ>\<open>char\<close> is the 8-bit character type of HOL and
  \<^typ>\<open>string\<close> a list of them, as \<^verbatim>\<open>std::string\<close> is a sequence of bytes.
\<close>

definition CTRL_C :: char where "CTRL_C = CHR 0x03"
definition CTRL_Z :: char where "CTRL_Z = CHR 0x1A"
definition CTRL_D :: char where "CTRL_D = CHR 0x04"
definition DEL :: char where "DEL = CHR 0x7F"
definition ESC :: char where "ESC = CHR 0x1B"
definition CR :: char where "CR = CHR 0x0D"
definition LF :: char where "LF = CHR 0x0A"
definition BS :: char where "BS = CHR 0x08"

definition STDOUT_FILENO :: int where "STDOUT_FILENO = 1"

datatype signal = SIGINT | SIGTSTP | SIGTERM | SIGKILL | SIGWINCH

subsection \<open>The emulator's state and its log of system calls\<close>

datatype event =
    SafeWrite int string  \<comment> \<open>\<^verbatim>\<open>safeWrite(fd, buf, count)\<close>: the descriptor and the bytes handed over\<close>
  | Kill int signal       \<comment> \<open>\<^verbatim>\<open>kill(pid, sig)\<close>\<close>
  | Waitpid int           \<comment> \<open>\<^verbatim>\<open>waitpid(pid, nullptr, 0)\<close>\<close>
  | Close int             \<comment> \<open>\<^verbatim>\<open>close(fd)\<close>\<close>
  | SetRaw                \<comment> \<open>the \<^verbatim>\<open>tcsetattr\<close> of \<^verbatim>\<open>configureTerminal\<close> that enters raw mode\<close>
  | Restore               \<comment> \<open>the \<^verbatim>\<open>tcsetattr\<close> of \<^verbatim>\<open>restoreTerminal\<close>, with \<^verbatim>\<open>original_termios_\<close>\<close>

record emu =
  master_fd :: int
  child_pid :: int
  is_running :: bool
  input_buffer :: string
  history :: "string list"
  history_index :: nat
  escape_sequence :: string
  syslog :: "event list"

text \<open>
  \<^verbatim>\<open>history_index_\<close> is a \<^verbatim>\<open>size_t\<close>. The code decrements it only under the guard
  \<^verbatim>\<open>history_index_ > 0\<close> and otherwise assigns it \<^verbatim>\<open>history_.size()\<close> or adds one
  below \<^verbatim>\<open>history_.size()\<close>, so it is a natural number here, with the guard written out.
\<close>

definition initial :: emu where
  "initial = \<lparr> master_fd = -1, child_pid = -1, is_running = False, input_buffer = [],
     history = [], history_index = 0, escape_sequence = [], syslog = [] \<rparr>"

definition emit :: "event \<Rightarrow> emu \<Rightarrow> emu" where
  "emit e st = st\<lparr> syslog := syslog st @ [e] \<rparr>"

text \<open>
  \<^verbatim>\<open>safeWrite\<close> (lines 50 to 65) hands the bytes to \<^verbatim>\<open>write\<close> until all are
  taken. Every caller in the class drops its result, so the model logs the call and
  keeps no result.
\<close>

definition safeWrite :: "int \<Rightarrow> string \<Rightarrow> emu \<Rightarrow> emu" where
  "safeWrite fd buf st = emit (SafeWrite fd buf) st"

text \<open>The bytes handed to \<^verbatim>\<open>safeWrite\<close> for one descriptor, in order.\<close>

fun written :: "int \<Rightarrow> event list \<Rightarrow> string" where
  "written fd [] = []"
| "written fd (SafeWrite f bs # es) = (if f = fd then bs @ written fd es else written fd es)"
| "written fd (e # es) = written fd es"

subsection \<open>The operating system and the child\<close>

text \<open>
  Two answers come from outside the emulator. Whether \<^verbatim>\<open>kill(pid, sig)\<close> succeeds:
  \<open>kill_ok\<close>. And whether the child, once that signal has been sent to it, has ended or
  ends: \<open>child_ends\<close>. \<^verbatim>\<open>waitpid(pid, nullptr, 0)\<close> returns when the child has ended
  and blocks as long as the child lives; the child is an interactive shell (line 124),
  which need not end on a signal.
\<close>

record os =
  kill_ok :: "int \<Rightarrow> signal \<Rightarrow> bool"
  child_ends :: "int \<Rightarrow> signal \<Rightarrow> bool"

text \<open>
  A function that calls \<^verbatim>\<open>waitpid\<close> either returns its result or stays blocked in
  \<^verbatim>\<open>waitpid\<close> for ever, in the state it had reached.
\<close>

datatype 'a progress = Blocked emu | Returns 'a

fun after :: "(bool \<times> emu) progress \<Rightarrow> emu" where
  "after (Blocked st) = st"
| "after (Returns r) = snd r"

fun reached :: "emu progress \<Rightarrow> emu" where
  "reached (Blocked st) = st"
| "reached (Returns st) = st"

subsection \<open>Signals to the child\<close>

text \<open>\<^verbatim>\<open>sendSignalToChild\<close> (lines 317 to 329).\<close>

definition sendSignalToChild :: "os \<Rightarrow> signal \<Rightarrow> emu \<Rightarrow> (bool \<times> emu) progress" where
  "sendSignalToChild os sig st =
     (if child_pid st \<le> 0 then Returns (True, st)
      else
        let st1 = emit (Kill (child_pid st) sig) st in
        if \<not> kill_ok os (child_pid st) sig then Returns (False, st1)
        else if sig = SIGINT \<or> sig = SIGTERM \<or> sig = SIGKILL then
          (let st2 = emit (Waitpid (child_pid st)) st1 in
           if \<not> child_ends os (child_pid st) sig then Blocked st2
           else Returns (True, st2\<lparr> child_pid := -1, is_running := False \<rparr>))
        else Returns (True, st1))"

subsection \<open>Line editing and history\<close>

definition clearLine :: "emu \<Rightarrow> emu" where
  "clearLine st = safeWrite STDOUT_FILENO [CR, ESC, CHR ''['', CHR ''K''] st"

text \<open>\<^verbatim>\<open>displayHistoryEntry\<close> (lines 307 to 314).\<close>

definition displayHistoryEntry :: "emu \<Rightarrow> emu" where
  "displayHistoryEntry st =
     (let st1 = clearLine st;
          st2 = safeWrite STDOUT_FILENO ''$ '' st1;
          st3 = st2\<lparr> input_buffer :=
                  (if history_index st2 < length (history st2)
                   then history st2 ! history_index st2 else []) \<rparr>
      in safeWrite STDOUT_FILENO (input_buffer st3) st3)"

text \<open>\<^verbatim>\<open>handleArrowKey\<close> (lines 290 to 304).\<close>

definition handleArrowKey :: "char \<Rightarrow> emu \<Rightarrow> emu" where
  "handleArrowKey c st =
     (if c = CHR ''A'' \<and> history_index st > 0 then
        displayHistoryEntry (st\<lparr> history_index := history_index st - 1 \<rparr>)
      else if c = CHR ''B'' then
        (if history_index st + 1 < length (history st) then
           displayHistoryEntry (st\<lparr> history_index := history_index st + 1 \<rparr>)
         else
           displayHistoryEntry
             (st\<lparr> history_index := length (history st), input_buffer := [] \<rparr>))
      else st)"

text \<open>\<^verbatim>\<open>handleEnter\<close> (lines 239 to 254).\<close>

definition handleEnter :: "emu \<Rightarrow> bool \<times> emu" where
  "handleEnter st =
     (if input_buffer st = ''exit'' then (False, st\<lparr> is_running := False \<rparr>)
      else
        let st1 = (if input_buffer st \<noteq> []
                   then st\<lparr> history := history st @ [input_buffer st],
                            history_index := length (history st @ [input_buffer st]) \<rparr>
                   else st);
            st2 = st1\<lparr> input_buffer := [] \<rparr>;
            st3 = safeWrite (master_fd st2) [LF] st2
        in (True, safeWrite STDOUT_FILENO [LF] st3))"

text \<open>\<^verbatim>\<open>handleBackspace\<close> (lines 257 to 263).\<close>

definition handleBackspace :: "emu \<Rightarrow> bool \<times> emu" where
  "handleBackspace st =
     (if input_buffer st = [] then (True, st)
      else
        let st1 = st\<lparr> input_buffer := butlast (input_buffer st) \<rparr>;
            st2 = safeWrite STDOUT_FILENO [BS, CHR '' '', BS] st1
        in (True, safeWrite (master_fd st2) [BS] st2))"

subsection \<open>Escape sequences\<close>

text \<open>
  \<^verbatim>\<open>handleEscapeSequence\<close> (lines 266 to 287); its reference parameter
  \<^verbatim>\<open>sequence\<close> is the static \<^verbatim>\<open>escape_sequence\<close>. The result \<open>True\<close> says that the
  byte was consumed.
\<close>

definition handleEscapeSequence :: "char \<Rightarrow> emu \<Rightarrow> bool \<times> emu" where
  "handleEscapeSequence c st =
     (if c = ESC then (True, st\<lparr> escape_sequence := [ESC] \<rparr>)
      else if escape_sequence st \<noteq> [] then
        (let st1 = st\<lparr> escape_sequence := escape_sequence st @ [c] \<rparr> in
         if length (escape_sequence st1) = 2 \<and> c \<noteq> CHR ''['' then
           (True, (safeWrite (master_fd st1) (escape_sequence st1) st1)\<lparr> escape_sequence := [] \<rparr>)
         else if length (escape_sequence st1) = 3 then
           (let st2 = handleArrowKey (escape_sequence st1 ! 2) st1;
                st3 = safeWrite (master_fd st2) (escape_sequence st2) st2
            in (True, st3\<lparr> escape_sequence := [] \<rparr>))
         else (False, st1))
      else (False, st))"

subsection \<open>One input byte\<close>

text \<open>
  \<^verbatim>\<open>processInput\<close> (lines 208 to 236). The result \<open>False\<close> tells the caller to stop
  the session.
\<close>

definition processInput :: "os \<Rightarrow> char \<Rightarrow> emu \<Rightarrow> (bool \<times> emu) progress" where
  "processInput os c st =
     (if c = CTRL_C then sendSignalToChild os SIGINT st
      else if c = CTRL_Z then sendSignalToChild os SIGTSTP st
      else if c = CTRL_D then
        Returns (False, (safeWrite (master_fd st) [c] st)\<lparr> is_running := False \<rparr>)
      else if c = DEL then Returns (handleBackspace st)
      else
        (case handleEscapeSequence c st of
           (True, st1) \<Rightarrow> Returns (True, st1)
         | (False, st1) \<Rightarrow>
             if c = CR \<or> c = LF then Returns (handleEnter st1)
             else
               let st2 = st1\<lparr> input_buffer := input_buffer st1 @ [c] \<rparr>;
                   st3 = safeWrite STDOUT_FILENO [c] st2
               in Returns (True, safeWrite (master_fd st3) [c] st3)))"

subsection \<open>Reading from the terminal and from the shell\<close>

text \<open>
  The \<^verbatim>\<open>for\<close> loop of \<^verbatim>\<open>readUserInput\<close> (lines 191 to 196) over the bytes read:
  the first byte that \<^verbatim>\<open>processInput\<close> answers with false clears
  \<^verbatim>\<open>is_running_\<close> and ends the loop. When \<^verbatim>\<open>processInput\<close> does not return, the
  loop does not either.
\<close>

fun feed :: "os \<Rightarrow> string \<Rightarrow> emu \<Rightarrow> emu progress" where
  "feed os [] st = Returns st"
| "feed os (c # cs) st =
     (case processInput os c st of
        Blocked st1 \<Rightarrow> Blocked st1
      | Returns (True, st1) \<Rightarrow> feed os cs st1
      | Returns (False, st1) \<Rightarrow> Returns (st1\<lparr> is_running := False \<rparr>))"

text \<open>
  \<^verbatim>\<open>readUserInput\<close> (lines 187 to 197): \<open>n\<close> is what \<^verbatim>\<open>read\<close> returned and
  \<open>buffer\<close> what it left in the buffer.
\<close>

definition readUserInput :: "os \<Rightarrow> int \<Rightarrow> string \<Rightarrow> emu \<Rightarrow> emu progress" where
  "readUserInput os n buffer st =
     (if n \<le> 0 then Returns st else feed os (take (nat n) buffer) st)"

text \<open>\<^verbatim>\<open>readShellOutput\<close> (lines 200 to 205).\<close>

definition readShellOutput :: "int \<Rightarrow> string \<Rightarrow> emu \<Rightarrow> emu" where
  "readShellOutput n buffer st =
     (if n > 0 then safeWrite STDOUT_FILENO (take (nat n) buffer) st else st)"

subsection \<open>The I/O loop\<close>

text \<open>
  What one call of \<^verbatim>\<open>poll\<close> in \<^verbatim>\<open>processIO\<close> (lines 163 to 184) brings: an
  interruption (\<^verbatim>\<open>EINTR\<close>), another failure, or a wakeup; for each descriptor whose
  \<^verbatim>\<open>POLLIN\<close> is set the wakeup carries what the following \<^verbatim>\<open>read\<close> returns and the
  buffer's content. The operating system's answers are a list; when it is used up while
  the loop still runs, the emulator is blocked in \<^verbatim>\<open>poll\<close> (\<open>Waiting\<close>). When
  \<^verbatim>\<open>readUserInput\<close> stays blocked in \<^verbatim>\<open>waitpid\<close>, so does the loop (\<open>Hung\<close>).
\<close>

datatype poll_result =
    PollEINTR
  | PollFailed
  | PollReady "(int \<times> string) option" "(int \<times> string) option"

datatype error = GetAttrFailed | SetRawFailed | PtyForkFailed | PollError

datatype outcome = Returned | Threw error | Waiting | Hung

fun processIO_loop :: "os \<Rightarrow> poll_result list \<Rightarrow> emu \<Rightarrow> outcome \<times> emu" where
  "processIO_loop os [] st = (if \<not> is_running st then (Returned, st) else (Waiting, st))"
| "processIO_loop os (w # ws) st =
     (if \<not> is_running st then (Returned, st)
      else case w of
        PollEINTR \<Rightarrow> processIO_loop os ws st
      | PollFailed \<Rightarrow> (Threw PollError, st)
      | PollReady user shell \<Rightarrow>
          (case (case user of Some (n, buffer) \<Rightarrow> readUserInput os n buffer st
                 | None \<Rightarrow> Returns st) of
             Blocked st1 \<Rightarrow> (Hung, st1)
           | Returns st1 \<Rightarrow>
               (let st2 = (case shell of Some (n, buffer) \<Rightarrow> readShellOutput n buffer st1
                           | None \<Rightarrow> st1)
                in processIO_loop os ws st2)))"

definition processIO :: "os \<Rightarrow> poll_result list \<Rightarrow> emu \<Rightarrow> outcome \<times> emu" where
  "processIO os ws st = processIO_loop os ws (st\<lparr> is_running := True \<rparr>)"

subsection \<open>Start-up, clean-up and the program\<close>

text \<open>The operating system's answers during the constructor (lines 29 to 33).\<close>

record startup =
  tcgetattr_ok :: bool
  tcsetattr_ok :: bool
  forkpty_pid :: int
  forkpty_fd :: int

text \<open>
  A function that may throw returns the log at the throw with the error: the log is the
  world's, and outlives the object.
\<close>

datatype 'a result = Throws error "event list" | ChildExec | Done 'a

text \<open>\<^verbatim>\<open>configureTerminal\<close> (lines 83 to 98).\<close>

definition configureTerminal :: "startup \<Rightarrow> emu \<Rightarrow> emu result" where
  "configureTerminal env st =
     (if \<not> tcgetattr_ok env then Throws GetAttrFailed (syslog st)
      else if \<not> tcsetattr_ok env then Throws SetRawFailed (syslog st)
      else Done (emit SetRaw st))"

text \<open>
  \<^verbatim>\<open>initializePty\<close> (lines 108 to 128). In the child \<^verbatim>\<open>forkpty\<close> returns 0 and the
  process becomes the shell or exits: it never comes back to the emulator.
\<close>

definition initializePty :: "startup \<Rightarrow> emu \<Rightarrow> emu result" where
  "initializePty env st =
     (let st1 = st\<lparr> child_pid := forkpty_pid env \<rparr> in
      if child_pid st1 = -1 then Throws PtyForkFailed (syslog st1)
      else if child_pid st1 = 0 then ChildExec
      else Done (st1\<lparr> master_fd := forkpty_fd env \<rparr>))"

text \<open>
  The constructor (lines 29 to 33). \<^verbatim>\<open>setupSignalHandlers\<close> only registers the
  handlers and leaves the fields alone.
\<close>

definition construct :: "startup \<Rightarrow> emu result" where
  "construct env =
     (case configureTerminal env initial of
        Throws e l \<Rightarrow> Throws e l
      | ChildExec \<Rightarrow> ChildExec
      | Done st \<Rightarrow> initializePty env st)"

definition restoreTerminal :: "emu \<Rightarrow> emu" where
  "restoreTerminal st = emit Restore st"

text \<open>\<^verbatim>\<open>cleanup\<close> (lines 68 to 80), the body of the destructor.\<close>

definition cleanup :: "os \<Rightarrow> emu \<Rightarrow> emu progress" where
  "cleanup os st =
     (let st1 = (if master_fd st \<noteq> -1
                 then (emit (Close (master_fd st)) st)\<lparr> master_fd := -1 \<rparr> else st)
      in if child_pid st1 > 0 then
           (let st2 = emit (Waitpid (child_pid st1)) (emit (Kill (child_pid st1) SIGTERM) st1)
            in if \<not> child_ends os (child_pid st1) SIGTERM then Blocked st2
               else Returns (restoreTerminal (st2\<lparr> child_pid := -1 \<rparr>)))
         else Returns (restoreTerminal st1))"

text \<open>
  \<^verbatim>\<open>run\<close> (lines 40 to 46) catches what \<^verbatim>\<open>processIO\<close> throws, so it returns
  whenever the loop ends.
\<close>

definition run :: "os \<Rightarrow> poll_result list \<Rightarrow> emu \<Rightarrow> outcome \<times> emu" where
  "run os ws st = processIO os ws st"

text \<open>
  \<^verbatim>\<open>main\<close> (lines 339 to 348). An exception out of the constructor leaves no object:
  C++ runs the destructor of fully constructed objects only, so the \<^verbatim>\<open>catch\<close> of
  \<^verbatim>\<open>main\<close> is all that happens after it. Otherwise the destructor runs
  \<^verbatim>\<open>cleanup\<close> when the block is left, and the program exits with 0 when
  \<^verbatim>\<open>cleanup\<close> returns.
\<close>

datatype exit_status = Exited int | StillRunning | BecameShell | HungInWaitpid

definition destroy :: "os \<Rightarrow> emu \<Rightarrow> exit_status \<times> event list" where
  "destroy os st =
     (case cleanup os st of
        Blocked st1 \<Rightarrow> (HungInWaitpid, syslog st1)
      | Returns st1 \<Rightarrow> (Exited 0, syslog st1))"

definition main :: "startup \<Rightarrow> os \<Rightarrow> poll_result list \<Rightarrow> exit_status \<times> event list" where
  "main env os ws =
     (case construct env of
        Throws e l \<Rightarrow> (Exited 1, l)
      | ChildExec \<Rightarrow> (BecameShell, [])
      | Done st \<Rightarrow>
          (case run os ws st of
             (Waiting, st1) \<Rightarrow> (StillRunning, syslog st1)
           | (Hung, st1) \<Rightarrow> (HungInWaitpid, syslog st1)
           | (Returned, st1) \<Rightarrow> destroy os st1
           | (Threw e, st1) \<Rightarrow> destroy os st1))"

subsection \<open>Notions used in the statements\<close>

text \<open>A write to the emulator's own terminal, as opposed to anything sent to the shell.\<close>

fun is_echo :: "event \<Rightarrow> bool" where
  "is_echo (SafeWrite fd bs) = (fd = STDOUT_FILENO)"
| "is_echo e = False"

text \<open>The recall cursor points at an entry of the history or just past the last one.\<close>

definition cursor_ok :: "emu \<Rightarrow> bool" where
  "cursor_ok st = (history_index st \<le> length (history st))"

text \<open>The three values of the escape accumulator between two input bytes.\<close>

definition esc_ok :: "string \<Rightarrow> bool" where
  "esc_ok s = (s = [] \<or> s = [ESC] \<or> s = [ESC, CHR ''[''])"

text \<open>How often the original terminal settings have been reapplied.\<close>

definition restores :: "emu \<Rightarrow> nat" where
  "restores st = count_list (syslog st) Restore"

subsection \<open>Concrete sessions\<close>

text \<open>
  Two environments in which \<^verbatim>\<open>kill\<close> always succeeds. In the first the child has
  ended whenever it is waited for (a shell that has exited, or one that a signal ends). In
  the second the child is a shell that lives on after \<^verbatim>\<open>SIGINT\<close>, as an interactive
  shell does, and ends only at the clean-up. Then a running session with the shell as
  process 100 behind descriptor 3, and some moments of that session.
\<close>

definition dying_child :: os where
  "dying_child = \<lparr> kill_ok = (\<lambda>pid sig. True), child_ends = (\<lambda>pid sig. True) \<rparr>"

definition surviving_child :: os where
  "surviving_child = \<lparr> kill_ok = (\<lambda>pid sig. True), child_ends = (\<lambda>pid sig. sig = SIGTERM) \<rparr>"

definition session :: emu where
  "session = initial\<lparr> master_fd := 3, child_pid := 100, is_running := True \<rparr>"

definition esc_pending :: emu where
  "esc_pending = session\<lparr> escape_sequence := [ESC] \<rparr>"

definition recalling :: emu where
  "recalling = session\<lparr> history := [''ls'', ''pwd''], history_index := 2,
                          escape_sequence := [ESC, CHR ''[''] \<rparr>"

definition exit_typed :: emu where
  "exit_typed = session\<lparr> input_buffer := ''exit'' \<rparr>"

definition exit_typed_esc :: emu where
  "exit_typed_esc = session\<lparr> input_buffer := ''exit'', escape_sequence := [ESC] \<rparr>"

definition ls_typed :: emu where
  "ls_typed = session\<lparr> input_buffer := ''ls'' \<rparr>"

text \<open>
  Two start-ups in which raw mode is entered: \<^verbatim>\<open>forkpty\<close> fails in the first and
  gives process 100 behind descriptor 3 in the second. And a wakeup at which the terminal
  is readable and \<^verbatim>\<open>read\<close> returns 0.
\<close>

definition fork_fails :: startup where
  "fork_fails = \<lparr> tcgetattr_ok = True, tcsetattr_ok = True, forkpty_pid = -1, forkpty_fd = -1 \<rparr>"

definition fork_works :: startup where
  "fork_works = \<lparr> tcgetattr_ok = True, tcsetattr_ok = True, forkpty_pid = 100, forkpty_fd = 3 \<rparr>"

definition end_of_input :: poll_result where
  "end_of_input = PollReady (Some (0, [])) None"

section \<open>Auxiliary facts\<close>

lemmas byte_defs = CTRL_C_def CTRL_Z_def CTRL_D_def DEL_def ESC_def CR_def LF_def BS_def

lemmas example_defs = session_def initial_def dying_child_def surviving_child_def esc_pending_def recalling_def
  exit_typed_def exit_typed_esc_def ls_typed_def

lemma written_append: "written fd (es @ es') = written fd es @ written fd es'"
  by (induction fd es rule: written.induct) simp_all

lemma displayHistoryEntry_frame:
  "master_fd (displayHistoryEntry st) = master_fd st"
  "child_pid (displayHistoryEntry st) = child_pid st"
  "is_running (displayHistoryEntry st) = is_running st"
  "history (displayHistoryEntry st) = history st"
  "history_index (displayHistoryEntry st) = history_index st"
  "escape_sequence (displayHistoryEntry st) = escape_sequence st"
  by (simp_all add: displayHistoryEntry_def clearLine_def safeWrite_def emit_def Let_def)

lemma displayHistoryEntry_buffer:
  "input_buffer (displayHistoryEntry st) =
     (if history_index st < length (history st) then history st ! history_index st else [])"
  by (simp add: displayHistoryEntry_def clearLine_def safeWrite_def emit_def Let_def)

lemma displayHistoryEntry_syslog:
  "syslog (displayHistoryEntry st) = syslog st @
     [SafeWrite STDOUT_FILENO [CR, ESC, CHR ''['', CHR ''K''],
      SafeWrite STDOUT_FILENO ''$ '',
      SafeWrite STDOUT_FILENO (input_buffer (displayHistoryEntry st))]"
  by (simp add: displayHistoryEntry_def clearLine_def safeWrite_def emit_def Let_def)

lemma handleArrowKey_frame:
  "master_fd (handleArrowKey c st) = master_fd st"
  "child_pid (handleArrowKey c st) = child_pid st"
  "is_running (handleArrowKey c st) = is_running st"
  "history (handleArrowKey c st) = history st"
  "escape_sequence (handleArrowKey c st) = escape_sequence st"
  by (simp_all add: handleArrowKey_def displayHistoryEntry_frame)

lemma handleArrowKey_syslog:
  "syslog (handleArrowKey c st) = syslog st \<or>
   syslog (handleArrowKey c st) = syslog st @
     [SafeWrite STDOUT_FILENO [CR, ESC, CHR ''['', CHR ''K''],
      SafeWrite STDOUT_FILENO ''$ '',
      SafeWrite STDOUT_FILENO (input_buffer (handleArrowKey c st))]"
  by (simp add: handleArrowKey_def displayHistoryEntry_syslog)

lemma handleArrowKey_esc_irrelevant:
  "handleArrowKey c (st\<lparr> escape_sequence := s \<rparr>) = (handleArrowKey c st)\<lparr> escape_sequence := s \<rparr>"
  by (simp add: handleArrowKey_def displayHistoryEntry_def clearLine_def safeWrite_def emit_def Let_def)

lemmas model_defs = processInput_def sendSignalToChild_def handleBackspace_def
  handleEscapeSequence_def handleEnter_def handleArrowKey_def displayHistoryEntry_def
  clearLine_def safeWrite_def emit_def Let_def

lemma written_echo: "fd \<noteq> STDOUT_FILENO \<Longrightarrow> list_all is_echo es \<Longrightarrow> written fd es = []"
  by (induction fd es rule: written.induct) auto

lemma handleArrowKey_echo_only:
  "\<exists>es. syslog (handleArrowKey c st) = syslog st @ es \<and> list_all is_echo es"
  using handleArrowKey_syslog [of c st] by auto

lemma handleArrowKey_index:
  "history_index (handleArrowKey c st) =
     (if c = CHR ''A'' \<and> 0 < history_index st then history_index st - 1
      else if c = CHR ''B'' then
        (if history_index st + 1 < length (history st) then history_index st + 1
         else length (history st))
      else history_index st)"
  by (simp add: handleArrowKey_def displayHistoryEntry_frame)

lemma handleArrowKey_buffer:
  "(c = CHR ''A'' \<and> 0 < history_index st) \<or> c = CHR ''B'' \<Longrightarrow>
   input_buffer (handleArrowKey c st) =
     (if history_index (handleArrowKey c st) < length (history st)
      then history st ! history_index (handleArrowKey c st) else [])"
  by (auto simp: handleArrowKey_def displayHistoryEntry_buffer displayHistoryEntry_frame)

lemma handleArrowKey_cursor: "cursor_ok st \<Longrightarrow> cursor_ok (handleArrowKey c st)"
  by (auto simp: cursor_ok_def handleArrowKey_index handleArrowKey_frame)

lemma sendSignalToChild_frame:
  "input_buffer (after (sendSignalToChild os sig st)) = input_buffer st"
  "history (after (sendSignalToChild os sig st)) = history st"
  "history_index (after (sendSignalToChild os sig st)) = history_index st"
  "escape_sequence (after (sendSignalToChild os sig st)) = escape_sequence st"
  by (simp_all add: sendSignalToChild_def emit_def Let_def)


lemma handleBackspace_frame:
  "history (snd (handleBackspace st)) = history st"
  "history_index (snd (handleBackspace st)) = history_index st"
  "escape_sequence (snd (handleBackspace st)) = escape_sequence st"
  "is_running (snd (handleBackspace st)) = is_running st"
  by (simp_all add: handleBackspace_def safeWrite_def emit_def Let_def)

lemma handleEnter_cursor: "cursor_ok st \<Longrightarrow> cursor_ok (snd (handleEnter st))"
  by (simp add: cursor_ok_def handleEnter_def safeWrite_def emit_def Let_def)

lemma handleEnter_esc: "escape_sequence (snd (handleEnter st)) = escape_sequence st"
  by (simp add: handleEnter_def safeWrite_def emit_def Let_def)




text \<open>What holds before a read and is kept by every byte holds where the read ends.\<close>

lemma feed_invariant:
  assumes step: "\<And>c st. P st \<Longrightarrow> P (after (processInput os c st))"
    and stop: "\<And>st. P st \<Longrightarrow> P (st\<lparr> is_running := False \<rparr>)"
    and start: "P st"
  shows "P (reached (feed os cs st))"
  using start
proof (induction cs arbitrary: st)
  case Nil
  then show ?case by simp
next
  case (Cons c cs)
  have p: "P (after (processInput os c st))" using Cons.prems by (rule step)
  show ?case
  proof (cases "processInput os c st")
    case (Blocked st1)
    with p show ?thesis by simp
  next
    case (Returns r)
    obtain ok st1 where r: "r = (ok, st1)" by (cases r)
    with p Returns have p1: "P st1" by simp
    show ?thesis
    proof (cases ok)
      case True
      with Returns r Cons.IH [OF p1] show ?thesis by simp
    next
      case False
      with Returns r stop [OF p1] show ?thesis by simp
    qed
  qed
qed


lemma handleEscapeSequence_cursor:
  "cursor_ok st \<Longrightarrow> cursor_ok (snd (handleEscapeSequence c st))"
proof -
  assume ok: "cursor_ok st"
  have "cursor_ok (handleArrowKey k (st\<lparr> escape_sequence := s \<rparr>))" for k s
    using ok by (intro handleArrowKey_cursor) (simp add: cursor_ok_def)
  then show ?thesis
    using ok
    by (simp add: handleEscapeSequence_def safeWrite_def emit_def Let_def cursor_ok_def)
qed

lemma processInput_cursor: "cursor_ok st \<Longrightarrow> cursor_ok (after (processInput os c st))"
proof -
  assume ok: "cursor_ok st"
  obtain b st1 where h: "handleEscapeSequence c st = (b, st1)" by (cases "handleEscapeSequence c st")
  with handleEscapeSequence_cursor [OF ok, of c] have ok1: "cursor_ok st1" by simp
  have e: "cursor_ok (snd (handleEnter st1))" by (rule handleEnter_cursor [OF ok1])
  show ?thesis
    using ok ok1 e h
    by (cases b)
       (simp_all add: processInput_def cursor_ok_def sendSignalToChild_frame
          handleBackspace_frame safeWrite_def emit_def Let_def)
qed

lemma feed_cursor: "cursor_ok st \<Longrightarrow> cursor_ok (reached (feed os cs st))"
proof (rule feed_invariant [where P = cursor_ok])
  show "cursor_ok (after (processInput os c s))" if "cursor_ok s" for c s
    using that by (rule processInput_cursor)
  show "cursor_ok (s\<lparr> is_running := False \<rparr>)" if "cursor_ok s" for s
    using that by (simp add: cursor_ok_def)
qed

lemma readUserInput_cursor:
  "cursor_ok st \<Longrightarrow> cursor_ok (reached (readUserInput os n buffer st))"
  by (simp add: readUserInput_def feed_cursor)

lemma readShellOutput_frame:
  "history (readShellOutput n buffer st) = history st"
  "history_index (readShellOutput n buffer st) = history_index st"
  "escape_sequence (readShellOutput n buffer st) = escape_sequence st"
  "input_buffer (readShellOutput n buffer st) = input_buffer st"
  "is_running (readShellOutput n buffer st) = is_running st"
  by (simp_all add: readShellOutput_def safeWrite_def emit_def)

text \<open>What both readers keep holds wherever the I/O loop ends, waits or hangs.\<close>

lemma processIO_loop_invariant:
  assumes user: "\<And>n buffer st. P st \<Longrightarrow> P (reached (readUserInput os n buffer st))"
    and shell: "\<And>n buffer st. P st \<Longrightarrow> P (readShellOutput n buffer st)"
    and start: "P st"
  shows "P (snd (processIO_loop os ws st))"
  using start
proof (induction ws arbitrary: st)
  case Nil
  then show ?case by simp
next
  case (Cons w ws)
  show ?case
  proof (cases w)
    case PollEINTR
    with Cons show ?thesis by simp
  next
    case PollFailed
    with Cons show ?thesis by simp
  next
    case (PollReady user shell)
    define r where "r = (case user of Some (n, buffer) \<Rightarrow> readUserInput os n buffer st
                      | None \<Rightarrow> Returns st)"
    have pr: "P (reached r)"
      using Cons.prems assms(1) by (simp add: r_def split: option.splits)
    show ?thesis
    proof (cases r)
      case (Blocked st1)
      have eq: "processIO_loop os (w # ws) st =
          (if \<not> is_running st then (Returned, st) else (Hung, st1))"
        using PollReady Blocked unfolding r_def by simp
      from pr Blocked Cons.prems show ?thesis unfolding eq by simp
    next
      case (Returns st1)
      define st2 where "st2 = (case shell of Some (n, buffer) \<Rightarrow> readShellOutput n buffer st1
                      | None \<Rightarrow> st1)"
      have eq: "processIO_loop os (w # ws) st =
          (if \<not> is_running st then (Returned, st) else processIO_loop os ws st2)"
        using PollReady Returns unfolding r_def st2_def by (simp add: Let_def)
      from pr Returns have "P st1" by simp
      then have "P st2"
        using assms(2) by (simp add: st2_def split: option.splits)
      then have "P (snd (processIO_loop os ws st2))" by (rule Cons.IH)
      with Cons.prems show ?thesis unfolding eq by simp
    qed
  qed
qed

lemma processIO_cursor: "cursor_ok st \<Longrightarrow> cursor_ok (snd (processIO os ws st))"
proof -
  assume "cursor_ok st"
  then have "cursor_ok (st\<lparr> is_running := True \<rparr>)" by (simp add: cursor_ok_def)
  moreover have "cursor_ok (readShellOutput n buffer s)" if "cursor_ok s" for n buffer s
    using that by (simp add: cursor_ok_def readShellOutput_frame)
  ultimately show ?thesis
    unfolding processIO_def
    by (intro processIO_loop_invariant [where P = cursor_ok] readUserInput_cursor)
qed

lemma handleEscapeSequence_esc:
  "esc_ok (escape_sequence st) \<Longrightarrow> esc_ok (escape_sequence (snd (handleEscapeSequence c st)))"
  by (auto simp: esc_ok_def handleEscapeSequence_def handleArrowKey_frame safeWrite_def
      emit_def Let_def)

lemma processInput_esc:
  "esc_ok (escape_sequence st) \<Longrightarrow> esc_ok (escape_sequence (after (processInput os c st)))"
proof -
  assume ok: "esc_ok (escape_sequence st)"
  obtain b st1 where h: "handleEscapeSequence c st = (b, st1)"
    by (cases "handleEscapeSequence c st")
  with handleEscapeSequence_esc [OF ok, of c] have "esc_ok (escape_sequence st1)" by simp
  with ok h show ?thesis
    by (cases b)
       (simp_all add: processInput_def sendSignalToChild_frame handleBackspace_frame
          handleEnter_esc safeWrite_def emit_def Let_def)
qed

lemma feed_esc:
  "esc_ok (escape_sequence st) \<Longrightarrow> esc_ok (escape_sequence (reached (feed os cs st)))"
proof (rule feed_invariant [where P = "\<lambda>s. esc_ok (escape_sequence s)"])
  show "esc_ok (escape_sequence (after (processInput os c s)))"
    if "esc_ok (escape_sequence s)" for c s
    using that by (rule processInput_esc)
  show "esc_ok (escape_sequence (s\<lparr> is_running := False \<rparr>))"
    if "esc_ok (escape_sequence s)" for s
    using that by simp
qed

lemma processIO_esc:
  "esc_ok (escape_sequence st) \<Longrightarrow> esc_ok (escape_sequence (snd (processIO os ws st)))"
proof -
  assume "esc_ok (escape_sequence st)"
  then have "esc_ok (escape_sequence (st\<lparr> is_running := True \<rparr>))" by simp
  moreover have "esc_ok (escape_sequence (readShellOutput n buffer s))"
    if "esc_ok (escape_sequence s)" for n buffer s
    using that by (simp add: readShellOutput_frame)
  moreover have "esc_ok (escape_sequence (reached (readUserInput os n buffer s)))"
    if "esc_ok (escape_sequence s)" for n buffer s
    using that by (simp add: readUserInput_def feed_esc)
  ultimately show ?thesis
    unfolding processIO_def
    by (intro processIO_loop_invariant [where P = "\<lambda>s. esc_ok (escape_sequence s)"])
qed

lemma handleArrowKey_restores: "restores (handleArrowKey c st) = restores st"
  using handleArrowKey_syslog [of c st]
  by (auto simp: restores_def)

lemma restores_frame [simp]:
  "restores (st\<lparr> is_running := r \<rparr>) = restores st"
  "restores (st\<lparr> input_buffer := b \<rparr>) = restores st"
  "restores (st\<lparr> escape_sequence := s \<rparr>) = restores st"
  "restores (st\<lparr> child_pid := p \<rparr>) = restores st"
  "restores (st\<lparr> master_fd := m \<rparr>) = restores st"
  "restores (st\<lparr> history := h \<rparr>) = restores st"
  "restores (st\<lparr> history_index := i \<rparr>) = restores st"
  "restores (safeWrite fd bs st) = restores st"
  "restores (emit (Kill p sig) st) = restores st"
  "restores (emit (Waitpid p) st) = restores st"
  "restores (emit (Close m) st) = restores st"
  "restores (emit Restore st) = Suc (restores st)"
  by (simp_all add: restores_def safeWrite_def emit_def)

lemma sendSignalToChild_restores:
  "restores (after (sendSignalToChild os sig st)) = restores st"
  by (simp add: sendSignalToChild_def Let_def)

lemma handleBackspace_restores: "restores (snd (handleBackspace st)) = restores st"
  by (simp add: handleBackspace_def Let_def)

lemma handleEnter_restores: "restores (snd (handleEnter st)) = restores st"
  by (simp add: handleEnter_def Let_def)

lemma handleEscapeSequence_restores:
  "restores (snd (handleEscapeSequence c st)) = restores st"
  by (simp add: handleEscapeSequence_def Let_def handleArrowKey_restores)

lemma processInput_restores: "restores (after (processInput os c st)) = restores st"
proof -
  obtain b st1 where h: "handleEscapeSequence c st = (b, st1)"
    by (cases "handleEscapeSequence c st")
  with handleEscapeSequence_restores [of c st] have r: "restores st1 = restores st" by simp
  show ?thesis
    using h r
    by (cases b)
       (simp_all add: processInput_def sendSignalToChild_restores handleBackspace_restores
          handleEnter_restores Let_def)
qed

lemma feed_restores: "restores (reached (feed os cs st)) = restores st"
  by (rule feed_invariant [where P = "\<lambda>s. restores s = restores st"])
     (simp_all add: processInput_restores)

lemma processIO_restores: "restores (snd (processIO os ws st)) = restores st"
proof -
  have "restores (snd (processIO_loop os ws (st\<lparr> is_running := True \<rparr>))) = restores st"
  proof (rule processIO_loop_invariant [where P = "\<lambda>s. restores s = restores st"])
    show "restores (reached (readUserInput os n buffer s)) = restores st"
      if "restores s = restores st" for n buffer s
      using that by (simp add: readUserInput_def feed_restores)
    show "restores (readShellOutput n buffer s) = restores st"
      if "restores s = restores st" for n buffer s
      using that by (simp add: readShellOutput_def)
    show "restores (st\<lparr> is_running := True \<rparr>) = restores st"
      by simp
  qed
  then show ?thesis by (simp add: processIO_def)
qed

text \<open>
  When the child has ended by the time the destructor waits for it, \<^verbatim>\<open>cleanup\<close>
  restores the terminal once, as its last step.
\<close>

lemma cleanup_restores:
  assumes "child_pid st > 0 \<longrightarrow> child_ends os (child_pid st) SIGTERM"
  shows "\<exists>st1. cleanup os st = Returns st1 \<and> restores st1 = Suc (restores st)
           \<and> last (syslog st1) = Restore"
  using assms
  by (simp add: cleanup_def restoreTerminal_def emit_def restores_def Let_def)

lemma construct_Done: "construct env = Done st \<Longrightarrow> syslog st = [SetRaw]"
  by (auto simp: construct_def configureTerminal_def initializePty_def initial_def emit_def
      Let_def split: if_splits)

lemma restore_once_when_constructed:
  assumes "construct env = Done st"
    and "run os ws st = (out, st1)" and "out = Returned \<or> out = Threw e"
    and "child_pid st1 > 0 \<longrightarrow> child_ends os (child_pid st1) SIGTERM"
  shows "fst (main env os ws) = Exited 0
    \<and> count_list (snd (main env os ws)) Restore = 1
    \<and> last (snd (main env os ws)) = Restore"
proof -
  obtain st2 where c: "cleanup os st1 = Returns st2" "restores st2 = Suc (restores st1)"
      "last (syslog st2) = Restore"
    using cleanup_restores [OF assms(4)] by blast
  have "restores st1 = restores st"
    using processIO_restores [of os ws st] assms(2) by (simp add: run_def)
  also have "restores st = 0"
    using construct_Done [OF assms(1)] by (simp add: restores_def)
  finally have n: "restores st2 = 1" using c by simp
  have m: "main env os ws = (Exited 0, syslog st2)"
    using assms(1,2,3) c by (auto simp: main_def destroy_def)
  show ?thesis
    using n c by (simp add: m restores_def)
qed

lemma readUserInput_nothing_read: "n \<le> 0 \<Longrightarrow> readUserInput os n buffer st = Returns st"
  by (simp add: readUserInput_def)

lemma end_of_input_never_returns:
  "n \<le> 0 \<Longrightarrow> is_running st \<Longrightarrow>
   processIO_loop os (replicate k (PollReady (Some (n, buffer)) None)) st = (Waiting, st)"
  by (induction k) (simp_all add: readUserInput_nothing_read)

text \<open>
  The last byte of a three-byte escape sequence: the arrow key acts first, then the three
  bytes go to the child.
\<close>

lemma final_byte_step:
  assumes "escape_sequence st = [a, b]"
    and "c \<noteq> CTRL_C" and "c \<noteq> CTRL_Z" and "c \<noteq> CTRL_D" and "c \<noteq> DEL" and "c \<noteq> ESC"
  shows "processInput os c st =
           Returns (True, (handleArrowKey c st)\<lparr> escape_sequence := [],
                     syslog := syslog (handleArrowKey c st) @
                       [SafeWrite (master_fd st) [a, b, c]] \<rparr>)"
  using assms
  by (simp add: processInput_def handleEscapeSequence_def handleArrowKey_esc_irrelevant
      handleArrowKey_frame safeWrite_def emit_def Let_def)

lemma handleArrowKey_written:
  "fd \<noteq> STDOUT_FILENO \<Longrightarrow> written fd (syslog (handleArrowKey c st)) = written fd (syslog st)"
proof -
  assume fd: "fd \<noteq> STDOUT_FILENO"
  obtain es where es: "syslog (handleArrowKey c st) = syslog st @ es" "list_all is_echo es"
    using handleArrowKey_echo_only by blast
  with fd show ?thesis by (simp add: written_append written_echo)
qed

text \<open>
  The bytes ESC, opening bracket and \<open>A\<close> or \<open>B\<close>, read one after the other from any
  state: the bracket is not consumed by \<^verbatim>\<open>handleEscapeSequence\<close> (it returns false at
  two bytes ending in the bracket), so \<^verbatim>\<open>processInput\<close> goes on to append it to the
  line buffer, echo it and forward it (lines 232 to 234); the child receives it before
  the three bytes of the sequence.
\<close>

lemma escape_byte_step:
  "processInput os ESC st = Returns (True, st\<lparr> escape_sequence := [ESC] \<rparr>)"
  by (simp add: processInput_def handleEscapeSequence_def byte_defs)

lemma bracket_byte_step:
  "escape_sequence st = [ESC] \<Longrightarrow>
   processInput os (CHR ''['') st =
     Returns (True, st\<lparr> escape_sequence := [ESC, CHR ''[''],
                 input_buffer := input_buffer st @ ''['',
                 syslog := syslog st @ [SafeWrite STDOUT_FILENO ''['',
                                        SafeWrite (master_fd st) ''['']  \<rparr>)"
  by (simp add: processInput_def handleEscapeSequence_def safeWrite_def emit_def byte_defs
      Let_def)

lemma arrow_sequence_forwards_four_bytes:
  assumes "k = CHR ''A'' \<or> k = CHR ''B''" and "master_fd st \<noteq> STDOUT_FILENO"
  shows "\<exists>st'. feed os [ESC, CHR ''['', k] st = Returns st' \<and>
           written (master_fd st) (syslog st') =
             written (master_fd st) (syslog st) @ [CHR ''['', ESC, CHR ''['', k]"
proof -
  define s1 where "s1 = st\<lparr> escape_sequence := [ESC] \<rparr>"
  define s2 where "s2 = s1\<lparr> escape_sequence := [ESC, CHR ''[''],
                 input_buffer := input_buffer s1 @ ''['',
                 syslog := syslog s1 @ [SafeWrite STDOUT_FILENO ''['',
                                        SafeWrite (master_fd s1) ''['']  \<rparr>"
  define s3 where "s3 = (handleArrowKey k s2)\<lparr> escape_sequence := [],
                     syslog := syslog (handleArrowKey k s2) @
                       [SafeWrite (master_fd s2) [ESC, CHR ''['', k]] \<rparr>"
  have p1: "processInput os ESC st = Returns (True, s1)"
    by (simp add: s1_def escape_byte_step)
  have p2: "processInput os (CHR ''['') s1 = Returns (True, s2)"
    unfolding s2_def by (rule bracket_byte_step) (simp add: s1_def)
  have k: "k \<noteq> CTRL_C" "k \<noteq> CTRL_Z" "k \<noteq> CTRL_D" "k \<noteq> DEL" "k \<noteq> ESC"
    using assms(1) by (auto simp: byte_defs)
  have p3: "processInput os k s2 = Returns (True, s3)"
    unfolding s3_def by (rule final_byte_step [OF _ k]) (simp add: s2_def)
  have f: "feed os [ESC, CHR ''['', k] st = Returns s3"
    by (simp add: p1 p2 p3)
  have m: "master_fd s2 = master_fd st" by (simp add: s2_def s1_def)
  have "written (master_fd st) (syslog s3) =
      written (master_fd st) (syslog s2) @ [ESC, CHR ''['', k]"
    using assms(2) handleArrowKey_written [of "master_fd st" k s2]
    by (simp add: s3_def written_append m)
  also have "written (master_fd st) (syslog s2) = written (master_fd st) (syslog st) @ ''[''"
    using assms(2) by (simp add: s2_def s1_def written_append)
  finally show ?thesis using f by simp
qed





section \<open>The claims\<close>

subsection \<open>C1: the Ctrl-C byte\<close>




subsection \<open>C2: the terminal is restored on every exit path\<close>

text \<open>
  C2 says that once raw mode is entered the original terminal settings are reapplied
  exactly once before the process exits, on every exit path, and in particular when the
  start-up fails after raw mode was entered. The code runs \<^verbatim>\<open>cleanup\<close> from the
  destructor only. When \<^verbatim>\<open>forkpty\<close> fails, \<^verbatim>\<open>initializePty\<close> throws out of the
  constructor, no destructor runs, and \<^verbatim>\<open>main\<close> returns 1 with the terminal still
  raw: the log holds the entry into raw mode and no restore. (Where the constructor
  succeeds, the loop ends and the child has ended when the destructor waits for it, there
  is exactly one restore, the last entry of the log: \<open>restore_once_when_constructed\<close>
  above.)
\<close>

theorem restore_missing_after_fork_failure:
  "main fork_fails surviving_child [] = (Exited 1, [SetRaw])
   \<and> count_list (snd (main fork_fails surviving_child [])) Restore = 0"
  by (simp add: main_def construct_def configureTerminal_def initializePty_def fork_fails_def
      initial_def emit_def Let_def)

subsection \<open>C3: ESC followed by a byte other than the opening bracket\<close>

text \<open>
  C3 says that when the accumulator holds a single ESC and the next byte is not the
  opening bracket, the two bytes are discarded and never forwarded to the child. In the
  session below ESC is pending and the byte \<open>x\<close> arrives: both bytes are written to the
  descriptor of the shell.
\<close>

theorem malformed_escape_counterexample:
  "escape_sequence esc_pending = [ESC] \<and> CHR ''x'' \<noteq> CHR ''['' \<and>
   written (master_fd esc_pending) (syslog esc_pending) = [] \<and>
   written (master_fd esc_pending)
     (syslog (after (processInput surviving_child (CHR ''x'') esc_pending))) = [ESC, CHR ''x'']"
  by (simp add: processInput_def handleEscapeSequence_def safeWrite_def emit_def
      example_defs byte_defs Let_def)

text \<open>
  C3 as amended: when the accumulator holds a single ESC and the next byte is neither the
  opening bracket nor one of the bytes dispatched before the accumulator (0x03, 0x1A, 0x04,
  0x7F, 0x1B), the accumulator is cleared and the two bytes, ESC and that byte, are
  forwarded to the child in one write; nothing is echoed, and the line buffer and the
  history stay as they are.
\<close>

theorem malformed_escape_forwarded:
  assumes "escape_sequence st = [ESC]"
    and "c \<noteq> CHR ''[''"
    and "c \<noteq> CTRL_C" and "c \<noteq> CTRL_Z" and "c \<noteq> CTRL_D" and "c \<noteq> DEL" and "c \<noteq> ESC"
  shows "processInput os c st =
           Returns (True, st\<lparr> escape_sequence := [],
                       syslog := syslog st @ [SafeWrite (master_fd st) [ESC, c]] \<rparr>)"
  using assms
  by (simp add: processInput_def handleEscapeSequence_def safeWrite_def emit_def Let_def)

theorem malformed_escape_forwarded_witness:
  "escape_sequence esc_pending = [ESC] \<and>
   processInput surviving_child (CHR ''x'') esc_pending =
     Returns (True, esc_pending\<lparr> escape_sequence := [],
               syslog := syslog esc_pending @ [SafeWrite (master_fd esc_pending) [ESC, CHR ''x'']] \<rparr>)"
proof -
  have h: "escape_sequence esc_pending = [ESC]" by (simp add: example_defs)
  from malformed_escape_forwarded [OF h, of "CHR ''x''" surviving_child] h
  show ?thesis by (simp add: byte_defs)
qed

subsection \<open>C4: end of input on the terminal\<close>

text \<open>
  C4 says that a wakeup at which the read from the terminal returns zero or less makes
  the main loop exit as a normal shutdown. \<^verbatim>\<open>readUserInput\<close> returns at once in
  that case and leaves \<^verbatim>\<open>is_running_\<close> set, so the loop polls again: after one such
  wakeup, and after three, the emulator is still waiting and the program has not exited.
  (However often the wakeup repeats, the loop does not return:
  \<open>end_of_input_never_returns\<close> above.)
\<close>

theorem end_of_input_keeps_loop_running:
  "readUserInput surviving_child 0 [] (session\<lparr> is_running := True \<rparr>) = Returns session
   \<and> processIO surviving_child [end_of_input] session = (Waiting, session)
   \<and> processIO surviving_child [end_of_input, end_of_input, end_of_input] session
        = (Waiting, session)
   \<and> main fork_works surviving_child [end_of_input] = (StillRunning, [SetRaw])"
  by (simp add: main_def run_def processIO_def readUserInput_def construct_def
      configureTerminal_def initializePty_def fork_works_def end_of_input_def
      example_defs emit_def Let_def)

subsection \<open>C5: history recall and the child\<close>

text \<open>
  C5 says that processing a complete ESC [ A or ESC [ B forwards no byte to the child.
  In the session below the history is \<open>ls\<close>, \<open>pwd\<close>, the cursor is past the end and
  ESC [ is pending; the byte \<open>A\<close> recalls \<open>pwd\<close> and the three bytes ESC [ A are
  written to the descriptor of the shell.
\<close>

theorem recall_counterexample:
  "escape_sequence recalling = [ESC, CHR ''['']  \<and>
   written (master_fd recalling) (syslog recalling) = [] \<and>
   input_buffer (after (processInput surviving_child (CHR ''A'') recalling)) = ''pwd'' \<and>
   written (master_fd recalling)
     (syslog (after (processInput surviving_child (CHR ''A'') recalling)))
       = [ESC, CHR ''['', CHR ''A'']"
  by (simp add: processInput_def handleEscapeSequence_def handleArrowKey_def
      displayHistoryEntry_def clearLine_def safeWrite_def emit_def
      example_defs byte_defs STDOUT_FILENO_def Let_def)

text \<open>
  C5 as amended: the recall itself (\<^verbatim>\<open>handleArrowKey\<close> with its redisplay) forwards no
  byte to the child: all it adds to the log are writes to the local terminal, and it
  leaves the descriptor, the child, the running flag and the history alone, changing only
  the line buffer and the cursor. Processing the final byte \<open>A\<close> or \<open>B\<close>, with ESC [
  accumulated, forwards to the child the three bytes of the sequence and no other byte.
  The statement is about the recall and that final byte; what the two bytes before it
  had forwarded is no part of it (\<open>arrow_sequence_forwards_four_bytes\<close> above: the
  opening bracket had gone to the child as well when it arrived).
\<close>

theorem recall_is_local:
  "(\<exists>es. syslog (handleArrowKey c st) = syslog st @ es \<and> list_all is_echo es)
   \<and> master_fd (handleArrowKey c st) = master_fd st
   \<and> child_pid (handleArrowKey c st) = child_pid st
   \<and> is_running (handleArrowKey c st) = is_running st
   \<and> history (handleArrowKey c st) = history st
   \<and> (fd \<noteq> STDOUT_FILENO \<longrightarrow>
        written fd (syslog (handleArrowKey c st)) = written fd (syslog st))
   \<and> (escape_sequence st = [ESC, CHR ''['']  \<and> (c = CHR ''A'' \<or> c = CHR ''B'') \<and>
        master_fd st \<noteq> STDOUT_FILENO \<longrightarrow>
        (\<exists>st'. processInput os c st = Returns (True, st') \<and>
          written (master_fd st) (syslog st') =
            written (master_fd st) (syslog st) @ [ESC, CHR ''['', c]))"
proof -
  have es: "\<exists>es. syslog (handleArrowKey c st) = syslog st @ es \<and> list_all is_echo es"
    by (rule handleArrowKey_echo_only)
  have w: "fd \<noteq> STDOUT_FILENO \<longrightarrow>
      written fd (syslog (handleArrowKey c st)) = written fd (syslog st)"
    by (simp add: handleArrowKey_written)
  have full: "\<exists>st'. processInput os c st = Returns (True, st') \<and>
          written (master_fd st) (syslog st') =
            written (master_fd st) (syslog st) @ [ESC, CHR ''['', c]"
    if a: "escape_sequence st = [ESC, CHR ''['']" and k: "c = CHR ''A'' \<or> c = CHR ''B''"
      and m: "master_fd st \<noteq> STDOUT_FILENO"
  proof -
    have n: "c \<noteq> CTRL_C" "c \<noteq> CTRL_Z" "c \<noteq> CTRL_D" "c \<noteq> DEL" "c \<noteq> ESC"
      using k by (auto simp: byte_defs)
    show ?thesis
      using m by (simp add: final_byte_step [OF a n] written_append handleArrowKey_written)
  qed
  from es w full show ?thesis
    by (simp add: handleArrowKey_frame)
qed

theorem recall_is_local_witness:
  "master_fd recalling \<noteq> STDOUT_FILENO \<and>
   written (master_fd recalling) (syslog (handleArrowKey (CHR ''A'') recalling)) = [] \<and>
   input_buffer (handleArrowKey (CHR ''A'') recalling) = ''pwd'' \<and>
   written (master_fd recalling)
     (syslog (after (processInput surviving_child (CHR ''A'') recalling)))
       = [ESC, CHR ''['', CHR ''A'']"
proof -
  have h: "master_fd recalling \<noteq> STDOUT_FILENO" "escape_sequence recalling = [ESC, CHR ''['']"
    "syslog recalling = []"
    by (simp_all add: example_defs STDOUT_FILENO_def)
  have b: "input_buffer (handleArrowKey (CHR ''A'') recalling) = ''pwd''"
    by (simp add: handleArrowKey_def displayHistoryEntry_buffer example_defs)
  from recall_is_local [of "CHR ''A''" recalling "master_fd recalling" surviving_child] h b
  show ?thesis by auto
qed

subsection \<open>C6: the recall cursor stays inside the history\<close>

text \<open>
  C6: for every sequence of input bytes the recall cursor stays in the range from 0 to
  the length of the history. One byte, any list of bytes and the whole I/O loop keep it
  there, and the initial state has it there. The up arrow at cursor 0 changes nothing and
  otherwise moves the cursor down by one; the down arrow moves it up by one below the
  length and to the length otherwise, never beyond; appending an entry sets the cursor to
  the new length; and a recall that ends at a cursor below the length makes the line
  buffer that entry of the history.
\<close>

theorem recall_cursor_bounds:
  assumes "cursor_ok st"
  shows "cursor_ok (after (processInput os c st))
    \<and> cursor_ok (reached (feed os cs st))
    \<and> cursor_ok (snd (processIO os ws st))
    \<and> cursor_ok initial
    \<and> history_index (handleArrowKey (CHR ''A'') st) =
        (if 0 < history_index st then history_index st - 1 else 0)
    \<and> (history_index st = 0 \<longrightarrow> handleArrowKey (CHR ''A'') st = st)
    \<and> history_index (handleArrowKey (CHR ''B'') st) =
        (if history_index st + 1 < length (history st) then history_index st + 1
         else length (history st))
    \<and> history_index (handleArrowKey (CHR ''B'') st) \<le> length (history st)
    \<and> (input_buffer st \<noteq> [] \<and> input_buffer st \<noteq> ''exit'' \<longrightarrow>
          history (snd (handleEnter st)) = history st @ [input_buffer st] \<and>
          history_index (snd (handleEnter st)) = length (history (snd (handleEnter st))))
    \<and> ((k = CHR ''A'' \<and> 0 < history_index st) \<or> k = CHR ''B'' \<longrightarrow>
          history_index (handleArrowKey k st) < length (history st) \<longrightarrow>
          input_buffer (handleArrowKey k st) = history st ! history_index (handleArrowKey k st))"
proof -
  have a: "cursor_ok (after (processInput os c st))"
    using assms by (rule processInput_cursor)
  have b: "cursor_ok (reached (feed os cs st))"
    using assms by (rule feed_cursor)
  have c: "cursor_ok (snd (processIO os ws st))"
    using assms by (rule processIO_cursor)
  have d: "cursor_ok initial"
    by (simp add: cursor_ok_def initial_def)
  have e: "history_index (handleArrowKey (CHR ''A'') st) =
        (if 0 < history_index st then history_index st - 1 else 0)"
    by (simp add: handleArrowKey_index)
  have f: "history_index st = 0 \<longrightarrow> handleArrowKey (CHR ''A'') st = st"
    by (simp add: handleArrowKey_def)
  have g: "history_index (handleArrowKey (CHR ''B'') st) =
        (if history_index st + 1 < length (history st) then history_index st + 1
         else length (history st))"
    by (simp add: handleArrowKey_index)
  have h: "history_index (handleArrowKey (CHR ''B'') st) \<le> length (history st)"
    by (simp add: g)
  have i: "input_buffer st \<noteq> [] \<and> input_buffer st \<noteq> ''exit'' \<longrightarrow>
          history (snd (handleEnter st)) = history st @ [input_buffer st] \<and>
          history_index (snd (handleEnter st)) = length (history (snd (handleEnter st)))"
    by (simp add: handleEnter_def safeWrite_def emit_def Let_def)
  have j: "(k = CHR ''A'' \<and> 0 < history_index st) \<or> k = CHR ''B'' \<longrightarrow>
          history_index (handleArrowKey k st) < length (history st) \<longrightarrow>
          input_buffer (handleArrowKey k st) = history st ! history_index (handleArrowKey k st)"
    using handleArrowKey_buffer [of k st] by simp
  from a b c d e f g h i j show ?thesis by blast
qed

theorem recall_cursor_bounds_witness:
  "cursor_ok recalling
   \<and> cursor_ok (reached (feed surviving_child [CHR ''A'', ESC, CHR ''['', CHR ''B''] recalling))
   \<and> history_index (handleArrowKey (CHR ''A'') recalling) = 1
   \<and> input_buffer (handleArrowKey (CHR ''A'') recalling) = ''pwd''
   \<and> history_index (handleArrowKey (CHR ''B'') recalling) = 2
   \<and> cursor_ok ls_typed
   \<and> history (snd (handleEnter ls_typed)) = [''ls'']
   \<and> history_index (snd (handleEnter ls_typed)) = 1"
proof -
  have r: "cursor_ok recalling" and l: "cursor_ok ls_typed"
    by (simp_all add: cursor_ok_def example_defs)
  from recall_cursor_bounds [OF r, of surviving_child "CHR ''A''"
      "[CHR ''A'', ESC, CHR ''['', CHR ''B'']" "[]" "CHR ''A''"]
    recall_cursor_bounds [OF l, of surviving_child "CHR ''A''" "[]" "[]" "CHR ''A''"]
  show ?thesis
    by (simp add: model_defs cursor_ok_def example_defs byte_defs)
qed

subsection \<open>C7: submitting a line\<close>

text \<open>
  C7: a submission whose line buffer \<open>L\<close> is not empty and not \<open>exit\<close> appends \<open>L\<close> as
  the last entry of the history, sets the cursor to the new length, clears the line
  buffer, forwards a newline to the child and echoes a newline, in that order; a
  submission with an empty line buffer leaves the history unchanged. A carriage return or
  newline byte is a submission when no escape sequence is pending: it is then handled by
  \<^verbatim>\<open>handleEnter\<close>.
\<close>

theorem submission_appends_history:
  "(input_buffer st \<noteq> [] \<and> input_buffer st \<noteq> ''exit'' \<longrightarrow>
      handleEnter st =
        (True, st\<lparr> history := history st @ [input_buffer st],
                    history_index := Suc (length (history st)),
                    input_buffer := [],
                    syslog := syslog st @
                      [SafeWrite (master_fd st) [LF], SafeWrite STDOUT_FILENO [LF]] \<rparr>)
      \<and> last (history (snd (handleEnter st))) = input_buffer st
      \<and> history_index (snd (handleEnter st)) = length (history (snd (handleEnter st))))
   \<and> (input_buffer st = [] \<longrightarrow>
      handleEnter st =
        (True, st\<lparr> syslog := syslog st @
                      [SafeWrite (master_fd st) [LF], SafeWrite STDOUT_FILENO [LF]] \<rparr>)
      \<and> history (snd (handleEnter st)) = history st)
   \<and> (escape_sequence st = [] \<and> (c = CR \<or> c = LF) \<longrightarrow>
      processInput os c st = Returns (handleEnter st))"
  by (auto simp: handleEnter_def processInput_def handleEscapeSequence_def safeWrite_def
      emit_def byte_defs Let_def)

theorem submission_appends_history_witness:
  "input_buffer ls_typed = ''ls'' \<and> escape_sequence ls_typed = []
   \<and> processInput surviving_child CR ls_typed =
       Returns (True, session\<lparr> history := [''ls''], history_index := 1,
                 syslog := [SafeWrite 3 [LF], SafeWrite STDOUT_FILENO [LF]] \<rparr>)
   \<and> processInput surviving_child LF session =
       Returns (True, session\<lparr> syslog := [SafeWrite 3 [LF], SafeWrite STDOUT_FILENO [LF]] \<rparr>)"
  using submission_appends_history [of ls_typed CR surviving_child]
    submission_appends_history [of session LF surviving_child]
  by (simp add: model_defs example_defs byte_defs)

subsection \<open>C8: the exit command\<close>

text \<open>
  C8 says that in every state whose line buffer is \<open>exit\<close> a carriage return or newline
  byte ends the session and forwards nothing to the child. In the session below the line
  buffer is \<open>exit\<close> and ESC is pending: the carriage return is taken as the second byte
  of the escape sequence, the session goes on, and ESC and the carriage return are
  written to the descriptor of the shell.
\<close>

theorem exit_counterexample:
  "input_buffer exit_typed_esc = ''exit''
   \<and> processInput surviving_child CR exit_typed_esc =
       Returns (True, exit_typed_esc\<lparr> escape_sequence := [],
                        syslog := [SafeWrite 3 [ESC, CR]] \<rparr>)
   \<and> is_running (after (processInput surviving_child CR exit_typed_esc))
   \<and> written (master_fd exit_typed_esc) (syslog exit_typed_esc) = []
   \<and> written (master_fd exit_typed_esc)
        (syslog (after (processInput surviving_child CR exit_typed_esc))) = [ESC, CR]"
  by (simp add: model_defs example_defs byte_defs)

text \<open>
  C8 as amended: in every state whose line buffer is \<open>exit\<close> and whose escape
  accumulator is empty, a carriage return or newline byte ends the session: the byte is
  answered with false, \<^verbatim>\<open>is_running_\<close> is cleared, nothing is written to the child or to
  the terminal, the history is unchanged, and the remaining bytes of the read are not
  processed.
\<close>

theorem exit_ends_session:
  assumes "input_buffer st = ''exit''" and "escape_sequence st = []" and "c = CR \<or> c = LF"
  shows "processInput os c st = Returns (False, st\<lparr> is_running := False \<rparr>)
    \<and> feed os (c # cs) st = Returns (st\<lparr> is_running := False \<rparr>)"
proof -
  have "processInput os c st = Returns (False, st\<lparr> is_running := False \<rparr>)"
    using assms
    by (auto simp: handleEnter_def processInput_def handleEscapeSequence_def byte_defs)
  then show ?thesis by simp
qed

theorem exit_ends_session_witness:
  "input_buffer exit_typed = ''exit'' \<and> escape_sequence exit_typed = []
   \<and> processInput surviving_child CR exit_typed =
       Returns (False, exit_typed\<lparr> is_running := False \<rparr>)
   \<and> feed surviving_child [CR, CHR ''x''] exit_typed =
       Returns (exit_typed\<lparr> is_running := False \<rparr>)"
proof -
  have h: "input_buffer exit_typed = ''exit''" "escape_sequence exit_typed = []"
    by (simp_all add: example_defs)
  from exit_ends_session [OF h, of CR surviving_child "[CHR ''x'']"] h
  show ?thesis by simp
qed

subsection \<open>C9: a completed escape sequence\<close>



subsection \<open>C10: the shape of the escape accumulator\<close>

text \<open>
  C10: after any input byte the escape accumulator is empty, the single byte ESC, or ESC
  followed by the opening bracket: one byte, any list of bytes and the whole I/O loop keep
  it so, and it is empty at the start. The bytes 0x03, 0x1A, 0x04 and 0x7F leave the
  accumulator as it is, whatever it holds.
\<close>

theorem accumulator_shape:
  assumes "esc_ok (escape_sequence st)"
  shows "esc_ok (escape_sequence (after (processInput os c st)))
    \<and> esc_ok (escape_sequence (reached (feed os cs st)))
    \<and> esc_ok (escape_sequence (snd (processIO os ws st)))
    \<and> esc_ok (escape_sequence initial)
    \<and> (k = CTRL_C \<or> k = CTRL_Z \<or> k = CTRL_D \<or> k = DEL \<longrightarrow>
         escape_sequence (after (processInput os k st)) = escape_sequence st)"
proof -
  have a: "esc_ok (escape_sequence (after (processInput os c st)))"
    using assms by (rule processInput_esc)
  have b: "esc_ok (escape_sequence (reached (feed os cs st)))"
    using assms by (rule feed_esc)
  have c: "esc_ok (escape_sequence (snd (processIO os ws st)))"
    using assms by (rule processIO_esc)
  have d: "esc_ok (escape_sequence initial)"
    by (simp add: esc_ok_def initial_def)
  have e: "k = CTRL_C \<or> k = CTRL_Z \<or> k = CTRL_D \<or> k = DEL \<longrightarrow>
         escape_sequence (after (processInput os k st)) = escape_sequence st"
    by (auto simp: processInput_def sendSignalToChild_frame handleBackspace_frame
        safeWrite_def emit_def byte_defs)
  from a b c d e show ?thesis by blast
qed

theorem accumulator_shape_witness:
  "esc_ok (escape_sequence esc_pending)
   \<and> escape_sequence (after (processInput surviving_child (CHR ''['') esc_pending))
       = [ESC, CHR ''['']
   \<and> escape_sequence (reached (feed surviving_child [CHR ''['', CHR ''A''] esc_pending)) = []
   \<and> escape_sequence (after (processInput surviving_child CTRL_C esc_pending)) = [ESC]
   \<and> escape_sequence (after (processInput surviving_child DEL esc_pending)) = [ESC]"
proof -
  have h: "esc_ok (escape_sequence esc_pending)"
    by (simp add: esc_ok_def example_defs)
  from accumulator_shape [OF h, of surviving_child "CHR ''[''" "[CHR ''['', CHR ''A'']" "[]" CTRL_C]
    h
  show ?thesis
    by (simp add: model_defs example_defs byte_defs esc_ok_def)
qed


end
